theory Spec2Isabelle
  imports Main "HOL-Library.Word"
begin

section \<open>The thermostat controller of thermostat.c\<close>

text \<open>
  The C file keeps the whole controller in one struct that every operation receives by
  pointer and mutates in place. Here each operation takes the struct and returns the
  updated one. The two temperature fields are C \<open>int\<close>s: they are modelled as 32-bit
  words, read as two's complement by \<open>sint\<close>, so that \<open>++\<close> and \<open>--\<close> are the
  machine's wrapping operations and every comparison of the source is a signed one.
\<close>

subsection \<open>Data model\<close>

type_synonym c_int = "32 word"

datatype ThermostatState = STATE_IDLE | STATE_HEATING | STATE_COOLING

datatype FanSpeed = FAN_LOW | FAN_MEDIUM | FAN_HIGH

record Thermostat =
  currentTemp :: c_int
  targetTemp :: c_int
  state :: ThermostatState
  fanSpeed :: FanSpeed

subsection \<open>Operations\<close>

text \<open>\<open>initThermostat\<close> overwrites all four fields, so its result does not depend on
  what the pointer held before.\<close>

definition initThermostat :: Thermostat where
  "initThermostat =
     \<lparr>currentTemp = 20, targetTemp = 22, state = STATE_IDLE, fanSpeed = FAN_LOW\<rparr>"

definition setTargetTemp :: "Thermostat \<Rightarrow> c_int \<Rightarrow> Thermostat" where
  "setTargetTemp thermostat newTarget =
     (if 16 \<le> sint newTarget \<and> sint newTarget \<le> 30 \<and> newTarget \<noteq> targetTemp thermostat
      then
        (if sint (currentTemp thermostat) < sint newTarget
         then thermostat\<lparr>targetTemp := newTarget, state := STATE_HEATING, fanSpeed := FAN_HIGH\<rparr>
         else if sint newTarget < sint (currentTemp thermostat)
         then thermostat\<lparr>targetTemp := newTarget, state := STATE_COOLING, fanSpeed := FAN_HIGH\<rparr>
         else thermostat\<lparr>targetTemp := newTarget, state := STATE_IDLE, fanSpeed := FAN_LOW\<rparr>)
      else thermostat)"

definition increaseTemp :: "Thermostat \<Rightarrow> Thermostat" where
  "increaseTemp thermostat =
     (if state thermostat = STATE_HEATING
         \<and> sint (currentTemp thermostat) < sint (targetTemp thermostat)
      then
        (if currentTemp thermostat + 1 = targetTemp thermostat
         then thermostat\<lparr>currentTemp := currentTemp thermostat + 1,
                state := STATE_IDLE, fanSpeed := FAN_LOW\<rparr>
         else thermostat\<lparr>currentTemp := currentTemp thermostat + 1,
                fanSpeed := FAN_MEDIUM\<rparr>)
      else thermostat)"

definition decreaseTemp :: "Thermostat \<Rightarrow> Thermostat" where
  "decreaseTemp thermostat =
     (if state thermostat = STATE_COOLING
         \<and> sint (targetTemp thermostat) < sint (currentTemp thermostat)
      then
        (if currentTemp thermostat - 1 = targetTemp thermostat
         then thermostat\<lparr>currentTemp := currentTemp thermostat - 1,
                state := STATE_IDLE, fanSpeed := FAN_LOW\<rparr>
         else thermostat\<lparr>currentTemp := currentTemp thermostat - 1,
                fanSpeed := FAN_MEDIUM\<rparr>)
      else thermostat)"

definition noChange :: "Thermostat \<Rightarrow> Thermostat" where
  "noChange thermostat =
     (if currentTemp thermostat = targetTemp thermostat
      then thermostat\<lparr>state := STATE_IDLE, fanSpeed := FAN_LOW\<rparr>
      else thermostat)"

subsection \<open>Sequences of calls\<close>

text \<open>
  A caller can do nothing to the struct but call one of the four mutating operations
  (the initialisation comes first). A run of the controller is therefore a list of calls,
  applied from left to right to the initialised struct.
\<close>

datatype call = SetTargetTemp c_int | IncreaseTemp | DecreaseTemp | NoChange

fun apply_call :: "Thermostat \<Rightarrow> call \<Rightarrow> Thermostat" where
  "apply_call th (SetTargetTemp newTarget) = setTargetTemp th newTarget"
| "apply_call th IncreaseTemp = increaseTemp th"
| "apply_call th DecreaseTemp = decreaseTemp th"
| "apply_call th NoChange = noChange th"

fun run_calls :: "Thermostat \<Rightarrow> call list \<Rightarrow> Thermostat" where
  "run_calls th [] = th"
| "run_calls th (c # cs) = run_calls (apply_call th c) cs"

text \<open>\<open>increaseTemp\<close> called \<open>n\<close> times in a row.\<close>

fun increaseTemp_times :: "nat \<Rightarrow> Thermostat \<Rightarrow> Thermostat" where
  "increaseTemp_times 0 th = th"
| "increaseTemp_times (Suc n) th = increaseTemp_times n (increaseTemp th)"

section \<open>Arithmetic of the guarded increment and decrement\<close>

text \<open>
  \<open>currentTemp++\<close> runs only below \<open>targetTemp\<close>, and \<open>currentTemp--\<close> only above it, so
  neither can leave the range of \<open>int\<close>: the wrapped result is the mathematical one.
\<close>

lemma sint_succ_below:
  fixes a b :: c_int
  assumes "sint a < sint b"
  shows "sint (a + 1) = sint a + 1"
proof -
  have "sint b < 2 ^ (LENGTH(32) - 1)" by (rule sint_lt)
  moreover have "- (2 ^ (LENGTH(32) - 1)) \<le> sint a" by (rule sint_ge)
  ultimately have "- (2 ^ 31) \<le> sint a + 1" and "sint a + 1 < 2 ^ 31"
    using assms by simp_all
  then have "signed_take_bit 31 (sint a + 1) = sint a + 1"
    by (simp add: signed_take_bit_int_eq_self)
  then show ?thesis by (simp add: sint_word_ariths)
qed

lemma sint_pred_above:
  fixes a b :: c_int
  assumes "sint b < sint a"
  shows "sint (a - 1) = sint a - 1"
proof -
  have "sint a < 2 ^ (LENGTH(32) - 1)" by (rule sint_lt)
  moreover have "- (2 ^ (LENGTH(32) - 1)) \<le> sint b" by (rule sint_ge)
  ultimately have "- (2 ^ 31) \<le> sint a - 1" and "sint a - 1 < 2 ^ 31"
    using assms by simp_all
  then have "signed_take_bit 31 (sint a - 1) = sint a - 1"
    by (simp add: signed_take_bit_int_eq_self)
  then show ?thesis by (simp add: sint_word_ariths)
qed

lemma sint_eq_iff:
  fixes a b :: c_int
  shows "sint a = sint b \<longleftrightarrow> a = b"
  using word_eq_iff_signed [where ?'a = int, of a b] by simp

section \<open>One call at a time\<close>

text \<open>Each operation either takes its guarded branch or returns the struct as it was.\<close>

lemma setTargetTemp_accept:
  assumes "16 \<le> sint t" and "sint t \<le> 30" and "t \<noteq> targetTemp s"
  shows "setTargetTemp s t =
     (if sint (currentTemp s) < sint t
      then s\<lparr>targetTemp := t, state := STATE_HEATING, fanSpeed := FAN_HIGH\<rparr>
      else if sint t < sint (currentTemp s)
      then s\<lparr>targetTemp := t, state := STATE_COOLING, fanSpeed := FAN_HIGH\<rparr>
      else s\<lparr>targetTemp := t, state := STATE_IDLE, fanSpeed := FAN_LOW\<rparr>)"
  unfolding setTargetTemp_def using assms by (simp only: simp_thms if_True)

lemma setTargetTemp_reject:
  assumes "sint t < 16 \<or> 30 < sint t \<or> t = targetTemp s"
  shows "setTargetTemp s t = s"
  using assms by (auto simp: setTargetTemp_def)

lemma increaseTemp_step:
  assumes "state s = STATE_HEATING" and "sint (currentTemp s) < sint (targetTemp s)"
  shows "increaseTemp s =
     (if currentTemp s + 1 = targetTemp s
      then s\<lparr>currentTemp := currentTemp s + 1, state := STATE_IDLE, fanSpeed := FAN_LOW\<rparr>
      else s\<lparr>currentTemp := currentTemp s + 1, fanSpeed := FAN_MEDIUM\<rparr>)"
  unfolding increaseTemp_def using assms by (simp only: simp_thms if_True)

lemma increaseTemp_skip:
  assumes "\<not> (state s = STATE_HEATING \<and> sint (currentTemp s) < sint (targetTemp s))"
  shows "increaseTemp s = s"
  unfolding increaseTemp_def using assms by (simp only: if_False)

lemma decreaseTemp_step:
  assumes "state s = STATE_COOLING" and "sint (targetTemp s) < sint (currentTemp s)"
  shows "decreaseTemp s =
     (if currentTemp s - 1 = targetTemp s
      then s\<lparr>currentTemp := currentTemp s - 1, state := STATE_IDLE, fanSpeed := FAN_LOW\<rparr>
      else s\<lparr>currentTemp := currentTemp s - 1, fanSpeed := FAN_MEDIUM\<rparr>)"
  unfolding decreaseTemp_def using assms by (simp only: simp_thms if_True)

lemma decreaseTemp_skip:
  assumes "\<not> (state s = STATE_COOLING \<and> sint (targetTemp s) < sint (currentTemp s))"
  shows "decreaseTemp s = s"
  unfolding decreaseTemp_def using assms by (simp only: if_False)

lemma succ_reaches_iff:
  fixes a b :: c_int
  assumes "sint a < sint b"
  shows "a + 1 = b \<longleftrightarrow> sint a + 1 = sint b"
  using sint_succ_below [OF assms] sint_eq_iff [of "a + 1" b] by simp

lemma pred_reaches_iff:
  fixes a b :: c_int
  assumes "sint b < sint a"
  shows "a - 1 = b \<longleftrightarrow> sint a - 1 = sint b"
  using sint_pred_above [OF assms] sint_eq_iff [of "a - 1" b] by simp

section \<open>Setting the target\<close>

text \<open>
  C1. For every struct \<open>s\<close> and every \<open>t\<close> with \<open>16 \<le> t \<le> 30\<close> and \<open>t \<noteq> targetTemp s\<close>,
  \<open>setTargetTemp s t\<close> has \<open>targetTemp = t\<close>, the \<open>currentTemp\<close> of \<open>s\<close>, and state and fan
  speed Heating/High if \<open>t\<close> is above \<open>currentTemp s\<close>, Cooling/High if it is below, and
  Idle/Low if they are equal.
\<close>

theorem setTargetTemp_valid:
  assumes "16 \<le> sint t" and "sint t \<le> 30" and "t \<noteq> targetTemp s"
  shows "targetTemp (setTargetTemp s t) = t
       \<and> currentTemp (setTargetTemp s t) = currentTemp s
       \<and> (sint (currentTemp s) < sint t \<longrightarrow>
            state (setTargetTemp s t) = STATE_HEATING
          \<and> fanSpeed (setTargetTemp s t) = FAN_HIGH)
       \<and> (sint t < sint (currentTemp s) \<longrightarrow>
            state (setTargetTemp s t) = STATE_COOLING
          \<and> fanSpeed (setTargetTemp s t) = FAN_HIGH)
       \<and> (t = currentTemp s \<longrightarrow>
            state (setTargetTemp s t) = STATE_IDLE
          \<and> fanSpeed (setTargetTemp s t) = FAN_LOW)"
proof -
  note acc = setTargetTemp_accept [OF assms]
  have tgt: "targetTemp (setTargetTemp s t) = t"
    by (simp add: acc)
  have cur: "currentTemp (setTargetTemp s t) = currentTemp s"
    by (simp add: acc)
  have up: "state (setTargetTemp s t) = STATE_HEATING \<and> fanSpeed (setTargetTemp s t) = FAN_HIGH"
    if "sint (currentTemp s) < sint t"
    using that by (simp add: acc)
  have down: "state (setTargetTemp s t) = STATE_COOLING \<and> fanSpeed (setTargetTemp s t) = FAN_HIGH"
    if "sint t < sint (currentTemp s)"
    using that by (simp add: acc)
  have same: "state (setTargetTemp s t) = STATE_IDLE \<and> fanSpeed (setTargetTemp s t) = FAN_LOW"
    if "t = currentTemp s"
  proof -
    from that have "\<not> sint (currentTemp s) < sint t" and "\<not> sint t < sint (currentTemp s)"
      by simp_all
    then show ?thesis by (simp add: acc)
  qed
  from tgt cur up down same show ?thesis by blast
qed

theorem setTargetTemp_valid_witness:
  "(16 \<le> sint (25 :: c_int) \<and> sint (25 :: c_int) \<le> 30 \<and> 25 \<noteq> targetTemp initThermostat
      \<and> setTargetTemp initThermostat 25 =
          \<lparr>currentTemp = 20, targetTemp = 25, state = STATE_HEATING, fanSpeed = FAN_HIGH\<rparr>)
   \<and> (16 \<le> sint (18 :: c_int) \<and> sint (18 :: c_int) \<le> 30 \<and> 18 \<noteq> targetTemp initThermostat
      \<and> setTargetTemp initThermostat 18 =
          \<lparr>currentTemp = 20, targetTemp = 18, state = STATE_COOLING, fanSpeed = FAN_HIGH\<rparr>)
   \<and> (16 \<le> sint (20 :: c_int) \<and> sint (20 :: c_int) \<le> 30 \<and> 20 \<noteq> targetTemp initThermostat
      \<and> setTargetTemp initThermostat 20 =
          \<lparr>currentTemp = 20, targetTemp = 20, state = STATE_IDLE, fanSpeed = FAN_LOW\<rparr>)"
proof -
  have a: "16 \<le> sint (25 :: c_int)" "sint (25 :: c_int) \<le> 30" "25 \<noteq> targetTemp initThermostat"
    by (simp_all add: initThermostat_def)
  have b: "16 \<le> sint (18 :: c_int)" "sint (18 :: c_int) \<le> 30" "18 \<noteq> targetTemp initThermostat"
    by (simp_all add: initThermostat_def)
  have c: "16 \<le> sint (20 :: c_int)" "sint (20 :: c_int) \<le> 30" "20 \<noteq> targetTemp initThermostat"
    by (simp_all add: initThermostat_def)
  have cur: "currentTemp initThermostat = 20"
    by (simp add: initThermostat_def)
  have "setTargetTemp initThermostat 25 =
          \<lparr>currentTemp = 20, targetTemp = 25, state = STATE_HEATING, fanSpeed = FAN_HIGH\<rparr>"
    using setTargetTemp_valid [OF a] by (simp add: cur)
  moreover have "setTargetTemp initThermostat 18 =
          \<lparr>currentTemp = 20, targetTemp = 18, state = STATE_COOLING, fanSpeed = FAN_HIGH\<rparr>"
    using setTargetTemp_valid [OF b] by (simp add: cur)
  moreover have "setTargetTemp initThermostat 20 =
          \<lparr>currentTemp = 20, targetTemp = 20, state = STATE_IDLE, fanSpeed = FAN_LOW\<rparr>"
    using setTargetTemp_valid [OF c] by (simp add: cur)
  ultimately show ?thesis using a b c by blast
qed

text \<open>
  C4. For every struct \<open>s\<close> and every \<open>t\<close> below 16, above 30 or equal to \<open>targetTemp s\<close>,
  \<open>setTargetTemp s t\<close> is \<open>s\<close>: all four fields are as they were. The operation has no
  error result: it returns a struct for every input.
\<close>

theorem setTargetTemp_rejected_unchanged:
  assumes "sint t < 16 \<or> 30 < sint t \<or> t = targetTemp s"
  shows "setTargetTemp s t = s
       \<and> currentTemp (setTargetTemp s t) = currentTemp s
       \<and> targetTemp (setTargetTemp s t) = targetTemp s
       \<and> state (setTargetTemp s t) = state s
       \<and> fanSpeed (setTargetTemp s t) = fanSpeed s"
  by (simp add: setTargetTemp_reject [OF assms])

theorem setTargetTemp_rejected_unchanged_witness:
  "(sint (15 :: c_int) < 16 \<and> setTargetTemp initThermostat 15 = initThermostat)
   \<and> (30 < sint (31 :: c_int) \<and> setTargetTemp initThermostat 31 = initThermostat)
   \<and> (sint (- 1 :: c_int) < 16 \<and> setTargetTemp initThermostat (- 1) = initThermostat)
   \<and> (22 = targetTemp initThermostat \<and> setTargetTemp initThermostat 22 = initThermostat)"
proof -
  have a: "sint (15 :: c_int) < 16" by simp
  have b: "30 < sint (31 :: c_int)" by simp
  have c: "sint (- 1 :: c_int) < 16" by simp
  have d: "22 = targetTemp initThermostat" by (simp add: initThermostat_def)
  have "setTargetTemp initThermostat 15 = initThermostat"
    using setTargetTemp_rejected_unchanged [of 15 initThermostat] a by blast
  moreover have "setTargetTemp initThermostat 31 = initThermostat"
    using setTargetTemp_rejected_unchanged [of 31 initThermostat] b by blast
  moreover have "setTargetTemp initThermostat (- 1) = initThermostat"
    using setTargetTemp_rejected_unchanged [of "- 1" initThermostat] c by blast
  moreover have "setTargetTemp initThermostat 22 = initThermostat"
    using setTargetTemp_rejected_unchanged [of 22 initThermostat] d by blast
  ultimately show ?thesis using a b c d by blast
qed

section \<open>Advancing towards the target\<close>

text \<open>
  C2. For every struct \<open>s\<close> whose state is Heating and whose \<open>currentTemp\<close> is below its
  \<open>targetTemp\<close>, \<open>increaseTemp s\<close> has \<open>currentTemp\<close> raised by exactly 1 (no wrap-around);
  if the raised value equals \<open>targetTemp\<close> the result is Idle with fan Low, otherwise it
  is Heating with fan Medium. For every other struct \<open>increaseTemp s = s\<close>.
\<close>

theorem increaseTemp_spec:
  "(state s = STATE_HEATING \<and> sint (currentTemp s) < sint (targetTemp s) \<longrightarrow>
      sint (currentTemp (increaseTemp s)) = sint (currentTemp s) + 1
    \<and> (sint (currentTemp s) + 1 = sint (targetTemp s) \<longrightarrow>
          state (increaseTemp s) = STATE_IDLE \<and> fanSpeed (increaseTemp s) = FAN_LOW)
    \<and> (sint (currentTemp s) + 1 \<noteq> sint (targetTemp s) \<longrightarrow>
          state (increaseTemp s) = STATE_HEATING \<and> fanSpeed (increaseTemp s) = FAN_MEDIUM))
 \<and> (\<not> (state s = STATE_HEATING \<and> sint (currentTemp s) < sint (targetTemp s)) \<longrightarrow>
      increaseTemp s = s)"
proof -
  have run: "sint (currentTemp (increaseTemp s)) = sint (currentTemp s) + 1
    \<and> (sint (currentTemp s) + 1 = sint (targetTemp s) \<longrightarrow>
          state (increaseTemp s) = STATE_IDLE \<and> fanSpeed (increaseTemp s) = FAN_LOW)
    \<and> (sint (currentTemp s) + 1 \<noteq> sint (targetTemp s) \<longrightarrow>
          state (increaseTemp s) = STATE_HEATING \<and> fanSpeed (increaseTemp s) = FAN_MEDIUM)"
    if h: "state s = STATE_HEATING" and lt: "sint (currentTemp s) < sint (targetTemp s)"
  proof (cases "currentTemp s + 1 = targetTemp s")
    case True
    with increaseTemp_step [OF h lt]
    have eq: "increaseTemp s =
        s\<lparr>currentTemp := currentTemp s + 1, state := STATE_IDLE, fanSpeed := FAN_LOW\<rparr>"
      by simp
    from True have "sint (currentTemp s) + 1 = sint (targetTemp s)"
      by (simp add: succ_reaches_iff [OF lt])
    then show ?thesis by (simp add: eq sint_succ_below [OF lt])
  next
    case False
    with increaseTemp_step [OF h lt]
    have eq: "increaseTemp s = s\<lparr>currentTemp := currentTemp s + 1, fanSpeed := FAN_MEDIUM\<rparr>"
      by simp
    from False have "sint (currentTemp s) + 1 \<noteq> sint (targetTemp s)"
      by (simp add: succ_reaches_iff [OF lt])
    then show ?thesis by (simp add: eq h sint_succ_below [OF lt])
  qed
  from run increaseTemp_skip [of s] show ?thesis by blast
qed

theorem increaseTemp_spec_witness:
  "increaseTemp \<lparr>currentTemp = 20, targetTemp = 25, state = STATE_HEATING, fanSpeed = FAN_HIGH\<rparr>
     = \<lparr>currentTemp = 21, targetTemp = 25, state = STATE_HEATING, fanSpeed = FAN_MEDIUM\<rparr>
   \<and> increaseTemp \<lparr>currentTemp = 24, targetTemp = 25, state = STATE_HEATING, fanSpeed = FAN_MEDIUM\<rparr>
     = \<lparr>currentTemp = 25, targetTemp = 25, state = STATE_IDLE, fanSpeed = FAN_LOW\<rparr>
   \<and> increaseTemp \<lparr>currentTemp = 20, targetTemp = 25, state = STATE_COOLING, fanSpeed = FAN_HIGH\<rparr>
     = \<lparr>currentTemp = 20, targetTemp = 25, state = STATE_COOLING, fanSpeed = FAN_HIGH\<rparr>"
proof -
  let ?a = "\<lparr>currentTemp = 20, targetTemp = 25, state = STATE_HEATING, fanSpeed = FAN_HIGH\<rparr>"
  let ?b = "\<lparr>currentTemp = 24, targetTemp = 25, state = STATE_HEATING, fanSpeed = FAN_MEDIUM\<rparr>"
  let ?c = "\<lparr>currentTemp = 20, targetTemp = 25, state = STATE_COOLING, fanSpeed = FAN_HIGH\<rparr>"
  have ta: "targetTemp (increaseTemp ?a) = 25" and tb: "targetTemp (increaseTemp ?b) = 25"
    by (simp_all add: increaseTemp_def)
  have "sint (currentTemp (increaseTemp ?a)) = 21
      \<and> state (increaseTemp ?a) = STATE_HEATING \<and> fanSpeed (increaseTemp ?a) = FAN_MEDIUM"
    using increaseTemp_spec [of ?a] by simp
  then have "currentTemp (increaseTemp ?a) = 21
      \<and> state (increaseTemp ?a) = STATE_HEATING \<and> fanSpeed (increaseTemp ?a) = FAN_MEDIUM"
    using sint_eq_iff [of "currentTemp (increaseTemp ?a)" 21] by simp
  with ta have a: "increaseTemp ?a
     = \<lparr>currentTemp = 21, targetTemp = 25, state = STATE_HEATING, fanSpeed = FAN_MEDIUM\<rparr>"
    by (cases "increaseTemp ?a") simp
  have "sint (currentTemp (increaseTemp ?b)) = 25
      \<and> state (increaseTemp ?b) = STATE_IDLE \<and> fanSpeed (increaseTemp ?b) = FAN_LOW"
    using increaseTemp_spec [of ?b] by simp
  then have "currentTemp (increaseTemp ?b) = 25
      \<and> state (increaseTemp ?b) = STATE_IDLE \<and> fanSpeed (increaseTemp ?b) = FAN_LOW"
    using sint_eq_iff [of "currentTemp (increaseTemp ?b)" 25] by simp
  with tb have b: "increaseTemp ?b
     = \<lparr>currentTemp = 25, targetTemp = 25, state = STATE_IDLE, fanSpeed = FAN_LOW\<rparr>"
    by (cases "increaseTemp ?b") simp
  have c: "increaseTemp ?c = ?c"
    using increaseTemp_spec [of ?c] by simp
  from a b c show ?thesis by blast
qed

text \<open>
  C5. \<open>decreaseTemp\<close> mirrors \<open>increaseTemp\<close>. For every struct \<open>s\<close> whose state is Cooling
  and whose \<open>currentTemp\<close> is above its \<open>targetTemp\<close>, \<open>decreaseTemp s\<close> has \<open>currentTemp\<close>
  lowered by exactly 1 (no wrap-around); if the lowered value equals \<open>targetTemp\<close> the
  result is Idle with fan Low, otherwise it is Cooling with fan Medium. For every other
  struct \<open>decreaseTemp s = s\<close>.
\<close>

theorem decreaseTemp_spec:
  "(state s = STATE_COOLING \<and> sint (targetTemp s) < sint (currentTemp s) \<longrightarrow>
      sint (currentTemp (decreaseTemp s)) = sint (currentTemp s) - 1
    \<and> (sint (currentTemp s) - 1 = sint (targetTemp s) \<longrightarrow>
          state (decreaseTemp s) = STATE_IDLE \<and> fanSpeed (decreaseTemp s) = FAN_LOW)
    \<and> (sint (currentTemp s) - 1 \<noteq> sint (targetTemp s) \<longrightarrow>
          state (decreaseTemp s) = STATE_COOLING \<and> fanSpeed (decreaseTemp s) = FAN_MEDIUM))
 \<and> (\<not> (state s = STATE_COOLING \<and> sint (targetTemp s) < sint (currentTemp s)) \<longrightarrow>
      decreaseTemp s = s)"
proof (cases "state s = STATE_COOLING \<and> sint (targetTemp s) < sint (currentTemp s)")
  case False
  then show ?thesis by (simp only: decreaseTemp_skip simp_thms)
next
  case True
  then have c: "state s = STATE_COOLING" and gt: "sint (targetTemp s) < sint (currentTemp s)"
    by simp_all
  note dec = sint_pred_above [OF gt]
  show ?thesis
  proof (cases "currentTemp s - 1 = targetTemp s")
    case True
    then have "decreaseTemp s =
        s\<lparr>currentTemp := currentTemp s - 1, state := STATE_IDLE, fanSpeed := FAN_LOW\<rparr>"
      by (simp add: decreaseTemp_step [OF c gt])
    moreover from True have "sint (currentTemp s) - 1 = sint (targetTemp s)"
      by (simp add: pred_reaches_iff [OF gt])
    ultimately show ?thesis using c gt dec by simp
  next
    case False
    then have "decreaseTemp s = s\<lparr>currentTemp := currentTemp s - 1, fanSpeed := FAN_MEDIUM\<rparr>"
      by (simp add: decreaseTemp_step [OF c gt])
    moreover from False have "sint (currentTemp s) - 1 \<noteq> sint (targetTemp s)"
      by (simp add: pred_reaches_iff [OF gt])
    ultimately show ?thesis using c gt dec by simp
  qed
qed

theorem decreaseTemp_spec_witness:
  "(sint (currentTemp (decreaseTemp
        \<lparr>currentTemp = 20, targetTemp = 17, state = STATE_COOLING, fanSpeed = FAN_HIGH\<rparr>)) = 19
    \<and> state (decreaseTemp
        \<lparr>currentTemp = 20, targetTemp = 17, state = STATE_COOLING, fanSpeed = FAN_HIGH\<rparr>)
        = STATE_COOLING
    \<and> fanSpeed (decreaseTemp
        \<lparr>currentTemp = 20, targetTemp = 17, state = STATE_COOLING, fanSpeed = FAN_HIGH\<rparr>)
        = FAN_MEDIUM)
   \<and> (sint (currentTemp (decreaseTemp
        \<lparr>currentTemp = 18, targetTemp = 17, state = STATE_COOLING, fanSpeed = FAN_MEDIUM\<rparr>)) = 17
    \<and> state (decreaseTemp
        \<lparr>currentTemp = 18, targetTemp = 17, state = STATE_COOLING, fanSpeed = FAN_MEDIUM\<rparr>)
        = STATE_IDLE
    \<and> fanSpeed (decreaseTemp
        \<lparr>currentTemp = 18, targetTemp = 17, state = STATE_COOLING, fanSpeed = FAN_MEDIUM\<rparr>)
        = FAN_LOW)
   \<and> decreaseTemp \<lparr>currentTemp = 20, targetTemp = 17, state = STATE_HEATING, fanSpeed = FAN_HIGH\<rparr>
        = \<lparr>currentTemp = 20, targetTemp = 17, state = STATE_HEATING, fanSpeed = FAN_HIGH\<rparr>"
proof -
  let ?a = "\<lparr>currentTemp = 20, targetTemp = 17, state = STATE_COOLING, fanSpeed = FAN_HIGH\<rparr>"
  let ?b = "\<lparr>currentTemp = 18, targetTemp = 17, state = STATE_COOLING, fanSpeed = FAN_MEDIUM\<rparr>"
  let ?c = "\<lparr>currentTemp = 20, targetTemp = 17, state = STATE_HEATING, fanSpeed = FAN_HIGH\<rparr>"
  have a: "sint (currentTemp (decreaseTemp ?a)) = 19
      \<and> state (decreaseTemp ?a) = STATE_COOLING \<and> fanSpeed (decreaseTemp ?a) = FAN_MEDIUM"
    using decreaseTemp_spec [of ?a] by simp
  have b: "sint (currentTemp (decreaseTemp ?b)) = 17
      \<and> state (decreaseTemp ?b) = STATE_IDLE \<and> fanSpeed (decreaseTemp ?b) = FAN_LOW"
    using decreaseTemp_spec [of ?b] by simp
  have c: "decreaseTemp ?c = ?c"
    using decreaseTemp_spec [of ?c] by simp
  from a b c show ?thesis by blast
qed

section \<open>Reconciling\<close>

text \<open>
  C6. For every struct \<open>s\<close> with \<open>currentTemp s = targetTemp s\<close>, \<open>noChange s\<close> is Idle with
  fan Low whatever the state and fan speed of \<open>s\<close> were, and keeps both temperatures; for
  every struct with \<open>currentTemp s \<noteq> targetTemp s\<close>, \<open>noChange s = s\<close>.
\<close>

theorem noChange_spec:
  "(currentTemp s = targetTemp s \<longrightarrow>
      state (noChange s) = STATE_IDLE \<and> fanSpeed (noChange s) = FAN_LOW
    \<and> currentTemp (noChange s) = currentTemp s \<and> targetTemp (noChange s) = targetTemp s)
 \<and> (currentTemp s \<noteq> targetTemp s \<longrightarrow> noChange s = s)"
  by (simp add: noChange_def)

theorem noChange_spec_witness:
  "noChange \<lparr>currentTemp = 25, targetTemp = 25, state = STATE_COOLING, fanSpeed = FAN_HIGH\<rparr>
     = \<lparr>currentTemp = 25, targetTemp = 25, state = STATE_IDLE, fanSpeed = FAN_LOW\<rparr>
   \<and> noChange \<lparr>currentTemp = 24, targetTemp = 25, state = STATE_COOLING, fanSpeed = FAN_HIGH\<rparr>
     = \<lparr>currentTemp = 24, targetTemp = 25, state = STATE_COOLING, fanSpeed = FAN_HIGH\<rparr>"
proof -
  let ?a = "\<lparr>currentTemp = 25, targetTemp = 25, state = STATE_COOLING, fanSpeed = FAN_HIGH\<rparr>"
  let ?b = "\<lparr>currentTemp = 24, targetTemp = 25, state = STATE_COOLING, fanSpeed = FAN_HIGH\<rparr>"
  have "state (noChange ?a) = STATE_IDLE \<and> fanSpeed (noChange ?a) = FAN_LOW
      \<and> currentTemp (noChange ?a) = 25 \<and> targetTemp (noChange ?a) = 25"
    using noChange_spec [of ?a] by simp
  then have a: "noChange ?a
      = \<lparr>currentTemp = 25, targetTemp = 25, state = STATE_IDLE, fanSpeed = FAN_LOW\<rparr>"
    by (cases "noChange ?a") simp
  have b: "noChange ?b = ?b"
    using noChange_spec [of ?b] by simp
  from a b show ?thesis by blast
qed

section \<open>Frame properties\<close>

text \<open>
  C9. For every struct \<open>s\<close> whose state is not Heating, \<open>increaseTemp s = s\<close>; for every
  struct whose state is not Cooling, \<open>decreaseTemp s = s\<close>.
\<close>

theorem advance_wrong_state_noop:
  "(state s \<noteq> STATE_HEATING \<longrightarrow> increaseTemp s = s)
 \<and> (state s \<noteq> STATE_COOLING \<longrightarrow> decreaseTemp s = s)"
  by (simp add: increaseTemp_skip decreaseTemp_skip)

theorem advance_wrong_state_noop_witness:
  "increaseTemp \<lparr>currentTemp = 20, targetTemp = 25, state = STATE_IDLE, fanSpeed = FAN_HIGH\<rparr>
     = \<lparr>currentTemp = 20, targetTemp = 25, state = STATE_IDLE, fanSpeed = FAN_HIGH\<rparr>
   \<and> decreaseTemp \<lparr>currentTemp = 20, targetTemp = 17, state = STATE_HEATING, fanSpeed = FAN_LOW\<rparr>
     = \<lparr>currentTemp = 20, targetTemp = 17, state = STATE_HEATING, fanSpeed = FAN_LOW\<rparr>"
  using
    advance_wrong_state_noop
      [of "\<lparr>currentTemp = 20, targetTemp = 25, state = STATE_IDLE, fanSpeed = FAN_HIGH\<rparr>"]
    advance_wrong_state_noop
      [of "\<lparr>currentTemp = 20, targetTemp = 17, state = STATE_HEATING, fanSpeed = FAN_LOW\<rparr>"]
  by simp

text \<open>
  C10. For every struct, whether or not a guard holds, \<open>increaseTemp\<close>, \<open>decreaseTemp\<close> and
  \<open>noChange\<close> leave \<open>targetTemp\<close> as it was. \<open>targetTemp\<close> is written by \<open>initThermostat\<close>
  (to 22) and by \<open>setTargetTemp\<close> alone (for instance, to 25 on the initialised struct).
\<close>

theorem targetTemp_frame:
  "targetTemp (increaseTemp s) = targetTemp s
 \<and> targetTemp (decreaseTemp s) = targetTemp s
 \<and> targetTemp (noChange s) = targetTemp s
 \<and> targetTemp initThermostat = 22
 \<and> targetTemp (setTargetTemp initThermostat 25) = 25"
proof -
  have "targetTemp (increaseTemp s) = targetTemp s"
    by (simp add: increaseTemp_def)
  moreover have "targetTemp (decreaseTemp s) = targetTemp s"
    by (simp add: decreaseTemp_def)
  moreover have "targetTemp (noChange s) = targetTemp s"
    by (simp add: noChange_def)
  moreover have "targetTemp initThermostat = 22"
    by (simp add: initThermostat_def)
  moreover have "targetTemp (setTargetTemp initThermostat 25) = 25"
    by (simp add: setTargetTemp_def initThermostat_def)
  ultimately show ?thesis by blast
qed

section \<open>Invariants of every run\<close>

text \<open>Both invariants are kept by each single call, from any struct that has them.\<close>

lemma idle_low_apply_call:
  assumes "state th = STATE_IDLE \<longrightarrow> fanSpeed th = FAN_LOW"
  shows "state (apply_call th c) = STATE_IDLE \<longrightarrow> fanSpeed (apply_call th c) = FAN_LOW"
proof (cases c)
  case (SetTargetTemp t)
  show ?thesis
  proof (cases "16 \<le> sint t \<and> sint t \<le> 30 \<and> t \<noteq> targetTemp th")
    case True
    then show ?thesis
      using SetTargetTemp by (simp add: setTargetTemp_accept)
  next
    case False
    then have "setTargetTemp th t = th"
      by (intro setTargetTemp_reject) auto
    then show ?thesis using SetTargetTemp assms by simp
  qed
next
  case IncreaseTemp
  then show ?thesis using assms by (simp add: increaseTemp_def)
next
  case DecreaseTemp
  then show ?thesis using assms by (simp add: decreaseTemp_def)
next
  case NoChange
  then show ?thesis using assms by (simp add: noChange_def)
qed

lemma idle_low_run_calls:
  assumes "state th = STATE_IDLE \<longrightarrow> fanSpeed th = FAN_LOW"
  shows "state (run_calls th cs) = STATE_IDLE \<longrightarrow> fanSpeed (run_calls th cs) = FAN_LOW"
  using assms
proof (induction cs arbitrary: th)
  case Nil
  then show ?case by simp
next
  case (Cons c cs)
  from Cons.prems have "state (apply_call th c) = STATE_IDLE \<longrightarrow> fanSpeed (apply_call th c) = FAN_LOW"
    by (rule idle_low_apply_call)
  then show ?case using Cons.IH by simp
qed

lemma direction_apply_call:
  assumes "state th = STATE_HEATING \<longrightarrow> sint (currentTemp th) \<le> sint (targetTemp th)"
    and "state th = STATE_COOLING \<longrightarrow> sint (targetTemp th) \<le> sint (currentTemp th)"
  shows "(state (apply_call th c) = STATE_HEATING \<longrightarrow>
            sint (currentTemp (apply_call th c)) \<le> sint (targetTemp (apply_call th c)))
       \<and> (state (apply_call th c) = STATE_COOLING \<longrightarrow>
            sint (targetTemp (apply_call th c)) \<le> sint (currentTemp (apply_call th c)))"
proof (cases c)
  case (SetTargetTemp t)
  show ?thesis
  proof (cases "16 \<le> sint t \<and> sint t \<le> 30 \<and> t \<noteq> targetTemp th")
    case True
    then show ?thesis
      using SetTargetTemp by (simp add: setTargetTemp_accept)
  next
    case False
    then have "setTargetTemp th t = th"
      by (intro setTargetTemp_reject) auto
    then show ?thesis using SetTargetTemp assms by simp
  qed
next
  case IncreaseTemp
  show ?thesis
  proof (cases "state th = STATE_HEATING \<and> sint (currentTemp th) < sint (targetTemp th)")
    case True
    then have h: "state th = STATE_HEATING" and lt: "sint (currentTemp th) < sint (targetTemp th)"
      by simp_all
    from lt have "sint (currentTemp th + 1) \<le> sint (targetTemp th)"
      by (simp add: sint_succ_below [OF lt])
    then show ?thesis
      using IncreaseTemp h by (simp add: increaseTemp_step [OF h lt])
  next
    case False
    then show ?thesis
      using IncreaseTemp assms by (simp add: increaseTemp_skip)
  qed
next
  case DecreaseTemp
  show ?thesis
  proof (cases "state th = STATE_COOLING \<and> sint (targetTemp th) < sint (currentTemp th)")
    case True
    then have c: "state th = STATE_COOLING" and gt: "sint (targetTemp th) < sint (currentTemp th)"
      by simp_all
    from gt have "sint (targetTemp th) \<le> sint (currentTemp th - 1)"
      by (simp add: sint_pred_above [OF gt])
    then show ?thesis
      using DecreaseTemp c by (simp add: decreaseTemp_step [OF c gt])
  next
    case False
    then show ?thesis
      using DecreaseTemp assms by (simp add: decreaseTemp_skip)
  qed
next
  case NoChange
  then show ?thesis using assms by (simp add: noChange_def)
qed

lemma direction_run_calls:
  assumes "state th = STATE_HEATING \<longrightarrow> sint (currentTemp th) \<le> sint (targetTemp th)"
    and "state th = STATE_COOLING \<longrightarrow> sint (targetTemp th) \<le> sint (currentTemp th)"
  shows "(state (run_calls th cs) = STATE_HEATING \<longrightarrow>
            sint (currentTemp (run_calls th cs)) \<le> sint (targetTemp (run_calls th cs)))
       \<and> (state (run_calls th cs) = STATE_COOLING \<longrightarrow>
            sint (targetTemp (run_calls th cs)) \<le> sint (currentTemp (run_calls th cs)))"
  using assms
proof (induction cs arbitrary: th)
  case Nil
  then show ?case by simp
next
  case (Cons c cs)
  from direction_apply_call [OF Cons.prems, of c]
  have "state (apply_call th c) = STATE_HEATING \<longrightarrow>
          sint (currentTemp (apply_call th c)) \<le> sint (targetTemp (apply_call th c))"
    and "state (apply_call th c) = STATE_COOLING \<longrightarrow>
          sint (targetTemp (apply_call th c)) \<le> sint (currentTemp (apply_call th c))"
    by simp_all
  from Cons.IH [OF this] show ?case by simp
qed

text \<open>
  C7. In every struct reached from the initialised one by a finite sequence of calls of
  \<open>setTargetTemp\<close>, \<open>increaseTemp\<close>, \<open>decreaseTemp\<close> and \<open>noChange\<close>, state Idle implies fan
  speed Low.
\<close>

theorem reachable_idle_low:
  "state (run_calls initThermostat cs) = STATE_IDLE \<longrightarrow>
     fanSpeed (run_calls initThermostat cs) = FAN_LOW"
  by (rule idle_low_run_calls) (simp add: initThermostat_def)

theorem reachable_idle_low_witness:
  "state (run_calls initThermostat [SetTargetTemp 21, NoChange, IncreaseTemp]) = STATE_IDLE
   \<and> fanSpeed (run_calls initThermostat [SetTargetTemp 21, NoChange, IncreaseTemp]) = FAN_LOW"
proof -
  have "state (run_calls initThermostat [SetTargetTemp 21, NoChange, IncreaseTemp]) = STATE_IDLE"
    by (simp add: initThermostat_def setTargetTemp_def noChange_def increaseTemp_def)
  then show ?thesis
    using reachable_idle_low [of "[SetTargetTemp 21, NoChange, IncreaseTemp]"] by blast
qed

text \<open>
  C8. In every struct reached from the initialised one by a finite sequence of calls of
  the four operations, state Heating implies \<open>currentTemp \<le> targetTemp\<close> and state Cooling
  implies \<open>currentTemp \<ge> targetTemp\<close>.
\<close>

theorem reachable_direction:
  "(state (run_calls initThermostat cs) = STATE_HEATING \<longrightarrow>
      sint (currentTemp (run_calls initThermostat cs))
        \<le> sint (targetTemp (run_calls initThermostat cs)))
 \<and> (state (run_calls initThermostat cs) = STATE_COOLING \<longrightarrow>
      sint (targetTemp (run_calls initThermostat cs))
        \<le> sint (currentTemp (run_calls initThermostat cs)))"
  by (rule direction_run_calls) (simp_all add: initThermostat_def)

theorem reachable_direction_witness:
  "(state (run_calls initThermostat [SetTargetTemp 25, IncreaseTemp, DecreaseTemp]) = STATE_HEATING
    \<and> sint (currentTemp (run_calls initThermostat [SetTargetTemp 25, IncreaseTemp, DecreaseTemp]))
        \<le> sint (targetTemp (run_calls initThermostat [SetTargetTemp 25, IncreaseTemp, DecreaseTemp])))
 \<and> (state (run_calls initThermostat [SetTargetTemp 17, DecreaseTemp, NoChange]) = STATE_COOLING
    \<and> sint (targetTemp (run_calls initThermostat [SetTargetTemp 17, DecreaseTemp, NoChange]))
        \<le> sint (currentTemp (run_calls initThermostat [SetTargetTemp 17, DecreaseTemp, NoChange])))"
proof -
  have h: "state (run_calls initThermostat [SetTargetTemp 25, IncreaseTemp, DecreaseTemp])
      = STATE_HEATING"
    by (simp add: initThermostat_def setTargetTemp_def increaseTemp_def decreaseTemp_def)
  have c: "state (run_calls initThermostat [SetTargetTemp 17, DecreaseTemp, NoChange])
      = STATE_COOLING"
    by (simp add: initThermostat_def setTargetTemp_def decreaseTemp_def noChange_def)
  from h c show ?thesis
    using reachable_direction [of "[SetTargetTemp 25, IncreaseTemp, DecreaseTemp]"]
      reachable_direction [of "[SetTargetTemp 17, DecreaseTemp, NoChange]"]
    by blast
qed

section \<open>Convergence of heating\<close>

text \<open>
  A Heating struct that is \<open>n > 0\<close> degrees below its target is Idle with fan Low and at
  the target after exactly \<open>n\<close> calls of \<open>increaseTemp\<close>.
\<close>

lemma increaseTemp_times_converges:
  assumes "state th = STATE_HEATING"
    and "sint (targetTemp th) - sint (currentTemp th) = int n"
    and "0 < n"
  shows "increaseTemp_times n th =
           th\<lparr>currentTemp := targetTemp th, state := STATE_IDLE, fanSpeed := FAN_LOW\<rparr>"
  using assms
proof (induction n arbitrary: th)
  case 0
  then show ?case by simp
next
  case (Suc m)
  from Suc.prems have h: "state th = STATE_HEATING"
    and lt: "sint (currentTemp th) < sint (targetTemp th)"
    by simp_all
  show ?case
  proof (cases "m = 0")
    case True
    with Suc.prems have "sint (currentTemp th) + 1 = sint (targetTemp th)"
      by simp
    then have reach: "currentTemp th + 1 = targetTemp th"
      by (simp add: succ_reaches_iff [OF lt])
    then have "increaseTemp th =
        th\<lparr>currentTemp := currentTemp th + 1, state := STATE_IDLE, fanSpeed := FAN_LOW\<rparr>"
      by (simp add: increaseTemp_step [OF h lt])
    then show ?thesis using True reach by simp
  next
    case False
    with Suc.prems have "sint (currentTemp th) + 1 \<noteq> sint (targetTemp th)"
      by simp
    then have "currentTemp th + 1 \<noteq> targetTemp th"
      by (simp add: succ_reaches_iff [OF lt])
    then have step: "increaseTemp th =
        th\<lparr>currentTemp := currentTemp th + 1, fanSpeed := FAN_MEDIUM\<rparr>"
      by (simp add: increaseTemp_step [OF h lt])
    have "state (increaseTemp th) = STATE_HEATING"
      by (simp add: step h)
    moreover have "sint (targetTemp (increaseTemp th)) - sint (currentTemp (increaseTemp th)) = int m"
      using Suc.prems by (simp add: step sint_succ_below [OF lt])
    moreover have "0 < m" using False by simp
    ultimately have "increaseTemp_times m (increaseTemp th) =
        (increaseTemp th)\<lparr>currentTemp := targetTemp (increaseTemp th),
           state := STATE_IDLE, fanSpeed := FAN_LOW\<rparr>"
      by (rule Suc.IH)
    then show ?thesis by (simp add: step)
  qed
qed

lemma heating_from_init:
  assumes "16 \<le> sint t" and "sint t \<le> 30" and "t \<noteq> targetTemp initThermostat"
    and "20 \<le> sint t"
  shows "increaseTemp_times (nat (sint t - 20)) (setTargetTemp initThermostat t) =
           \<lparr>currentTemp = t, targetTemp = t, state = STATE_IDLE, fanSpeed = FAN_LOW\<rparr>"
proof (cases "sint t = 20")
  case True
  then have "sint t = sint (20 :: c_int)"
    by simp
  then have t: "t = 20"
    by (simp only: sint_eq_iff)
  show ?thesis
    by (simp add: t setTargetTemp_def initThermostat_def)
next
  case False
  let ?s = "setTargetTemp initThermostat t"
  from False assms(4) have below: "sint (currentTemp initThermostat) < sint t"
    by (simp add: initThermostat_def)
  then have heat: "?s =
      \<lparr>currentTemp = 20, targetTemp = t, state = STATE_HEATING, fanSpeed = FAN_HIGH\<rparr>"
    by (simp add: setTargetTemp_accept [OF assms(1-3)]) (simp add: initThermostat_def)
  have "state ?s = STATE_HEATING"
    by (simp add: heat)
  moreover have "sint (targetTemp ?s) - sint (currentTemp ?s) = int (nat (sint t - 20))"
    using assms(4) by (simp add: heat)
  moreover have "0 < nat (sint t - 20)"
    using False assms(4) by simp
  ultimately have "increaseTemp_times (nat (sint t - 20)) ?s =
      ?s\<lparr>currentTemp := targetTemp ?s, state := STATE_IDLE, fanSpeed := FAN_LOW\<rparr>"
    by (rule increaseTemp_times_converges)
  then show ?thesis by (simp add: heat)
qed

lemma sint_small_target:
  fixes k :: int
  assumes "16 \<le> 22 + k" and "22 + k \<le> 30"
  shows "sint (word_of_int (22 + k) :: c_int) = 22 + k"
proof -
  have "- (2 ^ 31) \<le> 22 + k" and "22 + k < 2 ^ 31"
    using assms by simp_all
  then have "signed_take_bit 31 (22 + k) = 22 + k"
    by (simp add: signed_take_bit_int_eq_self)
  moreover have "LENGTH(32) - 1 = (31 :: nat)"
    by simp
  ultimately show ?thesis
    using sint_sbintrunc' [where ?'a = 32, of "22 + k"] by (simp only:)
qed

text \<open>
  C3, as the code has it. The initialised struct is at 20, two degrees below its target
  22, so the target \<open>22 + k\<close> is \<open>k + 2\<close> degrees away. For every \<open>k\<close> with
  \<open>16 \<le> 22 + k \<le> 30\<close>, \<open>22 + k \<noteq> 22\<close> and \<open>- 2 \<le> k\<close> (the target is not below the initial
  \<open>currentTemp\<close>), \<open>setTargetTemp\<close> to \<open>22 + k\<close> on the initialised struct followed by
  exactly \<open>k + 2\<close> calls of \<open>increaseTemp\<close> gives a struct that is Idle, with fan Low and
  \<open>currentTemp = targetTemp\<close>.
\<close>

theorem heating_converges_from_init:
  fixes k :: int
  assumes "16 \<le> 22 + k" and "22 + k \<le> 30" and "22 + k \<noteq> 22" and "- 2 \<le> k"
  shows "state (increaseTemp_times (nat (k + 2))
            (setTargetTemp initThermostat (word_of_int (22 + k)))) = STATE_IDLE
       \<and> fanSpeed (increaseTemp_times (nat (k + 2))
            (setTargetTemp initThermostat (word_of_int (22 + k)))) = FAN_LOW
       \<and> currentTemp (increaseTemp_times (nat (k + 2))
            (setTargetTemp initThermostat (word_of_int (22 + k))))
         = targetTemp (increaseTemp_times (nat (k + 2))
            (setTargetTemp initThermostat (word_of_int (22 + k))))"
proof -
  define t :: c_int where "t = word_of_int (22 + k)"
  have st: "sint t = 22 + k"
    unfolding t_def using assms(1,2) by (rule sint_small_target)
  have g1: "16 \<le> sint t" and g2: "sint t \<le> 30" and g4: "20 \<le> sint t"
    using assms(1,2,4) by (simp_all add: st)
  have "sint t \<noteq> sint (targetTemp initThermostat)"
    using assms(3) by (simp add: st initThermostat_def)
  then have g3: "t \<noteq> targetTemp initThermostat"
    by (simp only: sint_eq_iff not_False_eq_True)
  have n: "nat (sint t - 20) = nat (k + 2)"
    by (simp add: st)
  have "increaseTemp_times (nat (k + 2)) (setTargetTemp initThermostat t) =
           \<lparr>currentTemp = t, targetTemp = t, state = STATE_IDLE, fanSpeed = FAN_LOW\<rparr>"
    using heating_from_init [OF g1 g2 g3 g4] by (simp only: n)
  then show ?thesis
    unfolding t_def [symmetric] by simp
qed

theorem heating_converges_from_init_witness:
  "16 \<le> 22 + (3 :: int) \<and> 22 + (3 :: int) \<le> 30 \<and> 22 + (3 :: int) \<noteq> 22 \<and> - 2 \<le> (3 :: int)
   \<and> state (increaseTemp_times 5 (setTargetTemp initThermostat 25)) = STATE_IDLE
   \<and> fanSpeed (increaseTemp_times 5 (setTargetTemp initThermostat 25)) = FAN_LOW
   \<and> currentTemp (increaseTemp_times 5 (setTargetTemp initThermostat 25))
       = targetTemp (increaseTemp_times 5 (setTargetTemp initThermostat 25))"
proof -
  have n: "nat (3 + 2) = 5" by simp
  have t: "(word_of_int (22 + 3) :: c_int) = 25" by simp
  show ?thesis
    using heating_converges_from_init [of 3] by (simp only: n t) simp
qed

text \<open>
  C3, as the claim words it, asks for exactly \<open>k\<close> calls. With \<open>k = 3\<close>: after
  \<open>setTargetTemp\<close> to 25 and three calls of \<open>increaseTemp\<close> the struct is at 23, still
  Heating, with fan Medium.
\<close>

theorem heating_k_calls_counterexample:
  "16 \<le> 22 + (3 :: int) \<and> 22 + (3 :: int) \<le> 30 \<and> 22 + (3 :: int) \<noteq> 22
   \<and> increaseTemp_times (nat 3) (setTargetTemp initThermostat (word_of_int (22 + 3)))
       = \<lparr>currentTemp = 23, targetTemp = 25, state = STATE_HEATING, fanSpeed = FAN_MEDIUM\<rparr>
   \<and> \<not> (state (increaseTemp_times (nat 3)
              (setTargetTemp initThermostat (word_of_int (22 + 3)))) = STATE_IDLE
        \<and> fanSpeed (increaseTemp_times (nat 3)
              (setTargetTemp initThermostat (word_of_int (22 + 3)))) = FAN_LOW
        \<and> currentTemp (increaseTemp_times (nat 3)
              (setTargetTemp initThermostat (word_of_int (22 + 3))))
          = targetTemp (increaseTemp_times (nat 3)
              (setTargetTemp initThermostat (word_of_int (22 + 3)))))"
proof -
  have n: "nat 3 = Suc (Suc (Suc 0))" by simp
  have t: "(word_of_int (22 + 3) :: c_int) = 25" by simp
  have s0: "setTargetTemp initThermostat 25 =
      \<lparr>currentTemp = 20, targetTemp = 25, state = STATE_HEATING, fanSpeed = FAN_HIGH\<rparr>"
    by (simp add: setTargetTemp_def initThermostat_def)
  have s1: "increaseTemp
      \<lparr>currentTemp = 20, targetTemp = 25, state = STATE_HEATING, fanSpeed = FAN_HIGH\<rparr>
    = \<lparr>currentTemp = 21, targetTemp = 25, state = STATE_HEATING, fanSpeed = FAN_MEDIUM\<rparr>"
    by (simp add: increaseTemp_def)
  have s2: "increaseTemp
      \<lparr>currentTemp = 21, targetTemp = 25, state = STATE_HEATING, fanSpeed = FAN_MEDIUM\<rparr>
    = \<lparr>currentTemp = 22, targetTemp = 25, state = STATE_HEATING, fanSpeed = FAN_MEDIUM\<rparr>"
    by (simp add: increaseTemp_def)
  have s3: "increaseTemp
      \<lparr>currentTemp = 22, targetTemp = 25, state = STATE_HEATING, fanSpeed = FAN_MEDIUM\<rparr>
    = \<lparr>currentTemp = 23, targetTemp = 25, state = STATE_HEATING, fanSpeed = FAN_MEDIUM\<rparr>"
    by (simp add: increaseTemp_def)
  have "increaseTemp_times (nat 3) (setTargetTemp initThermostat (word_of_int (22 + 3)))
       = \<lparr>currentTemp = 23, targetTemp = 25, state = STATE_HEATING, fanSpeed = FAN_MEDIUM\<rparr>"
    by (simp only: n t increaseTemp_times.simps s0 s1 s2 s3)
  then show ?thesis by simp
qed

end
